theory Spec2Isabelle
  imports Complex_Main "HOL-Library.Word"
begin

section \<open>The music visualizer of script.js\<close>

text \<open>
  A shallow embedding of the class \<open>MusicVisualizer\<close>. JavaScript numbers are taken as
  real numbers: arithmetic is exact, and the places where the source would leave the
  finite numbers (a read past the end of the spectrum buffer, a division by a zero
  buffer length) are branches of the model, written out at each place.

  The engine talks to the canvas only through calls on its 2D context. Each draw routine
  is modelled as the sequence of those calls, in the order the source makes them, together
  with the exception that ends the routine early, if one does. What the calls do to the
  context is the function \<open>exec\<close>.
\<close>

subsection \<open>Errors\<close>

text \<open>
  \<open>TypeError\<close>: a method call on \<open>null\<close>, \<open>reduce\<close> of an empty array without an initial
  value, a non-finite argument to \<open>createLinearGradient\<close> or \<open>createRadialGradient\<close>.
  \<open>IndexSizeError\<close>: a negative radius given to \<open>arc\<close> or \<open>createRadialGradient\<close>.
  \<open>NonFinite\<close> is no exception of the source: it marks the one place where the source
  goes on computing with Infinity or NaN and real arithmetic cannot follow.
\<close>

datatype error = TypeError | IndexSizeError | NonFinite

subsection \<open>The drawing context\<close>

datatype colour =
    Rgba real real real real
  | Hsla real real real real

datatype style =
    Colour colour
  | LinearGradient real real real real "(real \<times> colour) list"
  | RadialGradient real real real real real real "(real \<times> colour) list"

datatype call =
    SetFillStyle style
  | SetStrokeStyle style
  | SetLineWidth real
  | FillRect real real real real
  | ClearRect real real real real
  | BeginPath
  | MoveTo real real
  | LineTo real real
  | Arc real real real real real
  | Stroke
  | Fill

datatype segment =
    SegMove real real
  | SegLine real real
  | SegArc real real real real real

datatype paint =
    FilledRect style real real real real
  | ClearedRect real real real real
  | StrokedPath style real "segment list"
  | FilledPath style "segment list"

text \<open>
  The context: its current styles and path, and \<open>surface\<close>, the paint laid on the canvas
  since it was last cleared as a whole. An empty \<open>surface\<close> is the cleared, fully
  transparent canvas. \<open>exec\<close> is given the extent \<open>sw\<close>, \<open>sh\<close> of the canvas in the
  context's own (logical) coordinates: a \<open>clearRect\<close> that covers it clears the canvas.
\<close>

record context2d =
  fillStyle :: style
  strokeStyle :: style
  lineWidth :: real
  path :: "segment list"
  surface :: "paint list"

definition covers :: "real \<Rightarrow> real \<Rightarrow> real \<Rightarrow> real \<Rightarrow> real \<Rightarrow> real \<Rightarrow> bool" where
  "covers sw sh rx ry rw rh \<longleftrightarrow> rx \<le> 0 \<and> ry \<le> 0 \<and> sw \<le> rx + rw \<and> sh \<le> ry + rh"

fun exec :: "real \<Rightarrow> real \<Rightarrow> call \<Rightarrow> context2d \<Rightarrow> context2d" where
  "exec sw sh (SetFillStyle st) c = c\<lparr>fillStyle := st\<rparr>"
| "exec sw sh (SetStrokeStyle st) c = c\<lparr>strokeStyle := st\<rparr>"
| "exec sw sh (SetLineWidth w) c = c\<lparr>lineWidth := w\<rparr>"
| "exec sw sh (FillRect rx ry rw rh) c =
     c\<lparr>surface := surface c @ [FilledRect (fillStyle c) rx ry rw rh]\<rparr>"
| "exec sw sh (ClearRect rx ry rw rh) c =
     (if covers sw sh rx ry rw rh then c\<lparr>surface := []\<rparr>
      else c\<lparr>surface := surface c @ [ClearedRect rx ry rw rh]\<rparr>)"
| "exec sw sh BeginPath c = c\<lparr>path := []\<rparr>"
| "exec sw sh (MoveTo px py) c = c\<lparr>path := path c @ [SegMove px py]\<rparr>"
| "exec sw sh (LineTo px py) c = c\<lparr>path := path c @ [SegLine px py]\<rparr>"
| "exec sw sh (Arc px py r a0 a1) c = c\<lparr>path := path c @ [SegArc px py r a0 a1]\<rparr>"
| "exec sw sh Stroke c =
     c\<lparr>surface := surface c @ [StrokedPath (strokeStyle c) (lineWidth c) (path c)]\<rparr>"
| "exec sw sh Fill c = c\<lparr>surface := surface c @ [FilledPath (fillStyle c) (path c)]\<rparr>"

fun exec_all :: "real \<Rightarrow> real \<Rightarrow> call list \<Rightarrow> context2d \<Rightarrow> context2d" where
  "exec_all sw sh [] c = c"
| "exec_all sw sh (k # ks) c = exec_all sw sh ks (exec sw sh k c)"

subsection \<open>The engine\<close>

type_synonym byte = "8 word"

text \<open>One element of \<open>this.particles\<close>; \<open>p_x\<close> and \<open>p_y\<close> are its fields \<open>x\<close> and \<open>y\<close>.\<close>

record particle =
  p_x :: real
  p_y :: real
  radius :: real
  speedX :: real
  speedY :: real
  hue :: real

text \<open>
  \<open>audioContext\<close>, \<open>analyser\<close>, \<open>bufferLength\<close>, \<open>dataArray\<close> and \<open>source\<close> are \<open>null\<close> until
  \<open>initAudioContext\<close> assigns them together: the field \<open>analysis\<close> is \<open>None\<close> until then.
\<close>

record analysis =
  bufferLength :: nat
  dataArray :: "byte list"

text \<open>
  The fields of the object, and the state of the host it acts on: the canvas element
  (\<open>canvas_width\<close>, \<open>canvas_height\<close>, unsigned integers; \<open>ctx\<close>), the window
  (\<open>devicePixelRatio\<close>; \<open>frame_counter\<close>, the last handle given out by
  \<open>requestAnimationFrame\<close>; \<open>pending_frames\<close>, the handles requested and neither run nor
  cancelled) and the audio element (\<open>audio_paused\<close>, \<open>audio_currentTime\<close>).
\<close>

record engine =
  isPlaying :: bool
  animationId :: "nat option"
  mode :: string
  particles :: "particle list"
  analysis :: "analysis option"
  canvas_width :: nat
  canvas_height :: nat
  ctx :: context2d
  devicePixelRatio :: real
  frame_counter :: nat
  pending_frames :: "nat list"
  audio_paused :: bool
  audio_currentTime :: real

text \<open>
  \<open>this.canvas.width / (window.devicePixelRatio || 1)\<close>, and the same for the height.
  \<open>initCanvas\<close> sizes the canvas to the pixel ratio and scales the context by it, so these
  are the extent of the canvas in the context's coordinates.
\<close>

definition logical_width :: "engine \<Rightarrow> real" where
  "logical_width s =
     real (canvas_width s) / (if devicePixelRatio s = 0 then 1 else devicePixelRatio s)"

definition logical_height :: "engine \<Rightarrow> real" where
  "logical_height s =
     real (canvas_height s) / (if devicePixelRatio s = 0 then 1 else devicePixelRatio s)"

text \<open>\<open>this.dataArray[i]\<close>: \<open>undefined\<close> past the end of the array.\<close>

definition bin_at :: "byte list \<Rightarrow> nat \<Rightarrow> real option" where
  "bin_at d i = (if i < length d then Some (real (unat (d ! i))) else None)"

subsection \<open>Bars\<close>

text \<open>
  One turn of the loop of \<open>drawBars\<close> for a bin of value \<open>v\<close>, at offset \<open>bx\<close>.
\<close>

definition bar_calls :: "real \<Rightarrow> real \<Rightarrow> nat \<Rightarrow> real \<Rightarrow> nat \<Rightarrow> real \<Rightarrow> call list" where
  "bar_calls height barWidth n bx i v =
     (let barHeight = (v / 255) * height * 0.8;
          hue = (real i / real n) * 360;
          gradient = LinearGradient 0 (height - barHeight) 0 height
                       [(0, Hsla hue 100 50 0.8), (1, Hsla hue 100 70 0.6)]
      in [SetFillStyle gradient,
          FillRect bx (height - barHeight) barWidth barHeight,
          SetFillStyle (Colour (Hsla hue 100 80 0.3)),
          FillRect bx (height - barHeight - 10) barWidth 5])"

text \<open>
  The loop \<open>for (let i = 0; i < this.bufferLength; i++)\<close>, from \<open>i\<close> on, with the running
  offset \<open>bx\<close>. A bin read past the end of \<open>dataArray\<close> is \<open>undefined\<close>, \<open>barHeight\<close> is
  NaN, and \<open>createLinearGradient\<close> throws a TypeError on it.
\<close>

function bars_loop ::
  "real \<Rightarrow> real \<Rightarrow> nat \<Rightarrow> byte list \<Rightarrow> real \<Rightarrow> nat \<Rightarrow> call list \<times> error option" where
  "bars_loop height barWidth n d bx i =
     (if i < n then
        (case bin_at d i of
           None \<Rightarrow> ([], Some TypeError)
         | Some v \<Rightarrow>
             (let (ks, e) = bars_loop height barWidth n d (bx + (barWidth + 1)) (Suc i)
              in (bar_calls height barWidth n bx i v @ ks, e)))
      else ([], None))"
  by pat_completeness auto
termination
  by (relation "measure (\<lambda>(height, barWidth, n, d, bx, i). n - i)") auto

declare bars_loop.simps [simp del]

definition drawBars :: "engine \<Rightarrow> analysis \<Rightarrow> call list \<times> error option" where
  "drawBars s a =
     (let width = logical_width s;
          height = logical_height s;
          barWidth = (width / real (bufferLength a)) * 2.5;
          (ks, e) = bars_loop height barWidth (bufferLength a) (dataArray a) 0 0
      in ([SetFillStyle (Colour (Rgba 0 0 0 0.2)), FillRect 0 0 width height] @ ks, e))"

subsection \<open>Radial\<close>

text \<open>
  One turn of the loop of \<open>drawCircle\<close>; \<open>v\<close> is \<open>this.dataArray[i]\<close>. Where it is
  \<open>undefined\<close>, \<open>barHeight\<close>, \<open>x2\<close> and \<open>y2\<close> are NaN and the canvas ignores the \<open>lineTo\<close>.
\<close>

definition spoke_calls ::
  "real \<Rightarrow> real \<Rightarrow> real \<Rightarrow> nat \<Rightarrow> nat \<Rightarrow> real option \<Rightarrow> call list" where
  "spoke_calls centerX centerY r n i v =
     (let angle = (real i / real n) * pi * 2;
          x1 = centerX + cos angle * r;
          y1 = centerY + sin angle * r;
          hue = (real i / real n) * 360
      in [SetStrokeStyle (Colour (Hsla hue 100 50 0.8)), SetLineWidth 2, BeginPath, MoveTo x1 y1]
         @ (case v of
              None \<Rightarrow> []
            | Some b \<Rightarrow>
                (let barHeight = (b / 255) * 100;
                     x2 = centerX + cos angle * (r + barHeight);
                     y2 = centerY + sin angle * (r + barHeight)
                 in [LineTo x2 y2]))
         @ [Stroke])"

text \<open>\<open>arc\<close> throws an IndexSizeError on a negative radius.\<close>

definition drawCircle :: "engine \<Rightarrow> analysis \<Rightarrow> call list \<times> error option" where
  "drawCircle s a =
     (let width = logical_width s;
          height = logical_height s;
          centerX = width / 2;
          centerY = height / 2;
          r = min width height / 4;
          spokes = concat (map (\<lambda>i. spoke_calls centerX centerY r (bufferLength a) i
                                        (bin_at (dataArray a) i)) [0..<bufferLength a]);
          ks = [SetFillStyle (Colour (Rgba 0 0 0 0.1)), FillRect 0 0 width height] @ spokes
               @ [BeginPath]
      in if r < 0 then (ks, Some IndexSizeError)
         else (ks @ [Arc centerX centerY r 0 (pi * 2),
                     SetStrokeStyle (Colour (Rgba 255 255 255 0.5)), SetLineWidth 2, Stroke],
               None))"

subsection \<open>Wave\<close>

text \<open>The remainder operator \<open>%\<close> on numbers: the quotient is truncated towards zero.\<close>

definition js_rem :: "real \<Rightarrow> real \<Rightarrow> real" where
  "js_rem a b = a - b * real_of_int (if 0 \<le> a / b then \<lfloor>a / b\<rfloor> else \<lceil>a / b\<rceil>)"

text \<open>
  The inner loop of \<open>drawWave\<close>, from \<open>i\<close> on, with the running offset \<open>wx\<close>. A call with a
  NaN coordinate is ignored by the canvas.
\<close>

function wave_loop ::
  "real \<Rightarrow> real \<Rightarrow> nat \<Rightarrow> byte list \<Rightarrow> nat \<Rightarrow> real \<Rightarrow> nat \<Rightarrow> call list" where
  "wave_loop height sliceWidth n d layer wx i =
     (if i < n then
        (case bin_at d i of
           None \<Rightarrow> []
         | Some b \<Rightarrow>
             (let v = b / 255;
                  wy = height / 2 + (v * height / 3 * sin ((real i + real layer * 30) * 0.1))
                         - (real layer * 30)
              in if i = 0 then [MoveTo wx wy] else [LineTo wx wy]))
        @ wave_loop height sliceWidth n d layer (wx + sliceWidth) (Suc i)
      else [])"
  by pat_completeness auto
termination
  by (relation "measure (\<lambda>(height, sliceWidth, n, d, layer, wx, i). n - i)") auto

declare wave_loop.simps [simp del]

text \<open>\<open>now k\<close> is what the \<open>k\<close>-th call of \<open>Date.now()\<close> in the routine returns.\<close>

definition layer_calls ::
  "real \<Rightarrow> real \<Rightarrow> nat \<Rightarrow> byte list \<Rightarrow> (nat \<Rightarrow> real) \<Rightarrow> nat \<Rightarrow> call list" where
  "layer_calls height sliceWidth n d now layer =
     (let hue = js_rem (now layer / 50 + real layer * 120) 360
      in [BeginPath, SetLineWidth 3, SetStrokeStyle (Colour (Hsla hue 100 50 0.6))]
         @ wave_loop height sliceWidth n d layer 0 0
         @ [Stroke])"

definition drawWave :: "engine \<Rightarrow> analysis \<Rightarrow> (nat \<Rightarrow> real) \<Rightarrow> call list \<times> error option" where
  "drawWave s a now =
     (let width = logical_width s;
          height = logical_height s;
          sliceWidth = width / real (bufferLength a)
      in ([SetFillStyle (Colour (Rgba 0 0 0 0.2)), FillRect 0 0 width height]
          @ concat (map (layer_calls height sliceWidth (bufferLength a) (dataArray a) now)
                      [0..<3]),
          None))"

subsection \<open>Particles\<close>

text \<open>
  Lines 288 to 295: the move by the scaled speed, the reflection at the borders, then
  the clamp into the surface.
\<close>

definition move_particle :: "real \<Rightarrow> real \<Rightarrow> real \<Rightarrow> particle \<Rightarrow> particle" where
  "move_particle width height scale p =
     (let x1 = p_x p + speedX p * scale;
          y1 = p_y p + speedY p * scale;
          sx = (if x1 < 0 \<or> x1 > width then speedX p * (- 1) else speedX p);
          sy = (if y1 < 0 \<or> y1 > height then speedY p * (- 1) else speedY p)
      in p\<lparr>p_x := max 0 (min width x1), p_y := max 0 (min height y1),
            speedX := sx, speedY := sy\<rparr>)"

text \<open>Lines 300 to 310: the disc of a particle.\<close>

definition disc_calls :: "particle \<Rightarrow> real \<Rightarrow> real \<Rightarrow> real \<Rightarrow> call list" where
  "disc_calls p sz h intensity =
     [SetFillStyle (RadialGradient (p_x p) (p_y p) 0 (p_x p) (p_y p) sz
                      [(0, Hsla h 100 50 intensity), (1, Hsla h 100 50 0)]),
      BeginPath,
      Arc (p_x p) (p_y p) sz 0 (pi * 2),
      Fill]"

text \<open>Lines 313 to 325: the link from a particle to one particle after it.\<close>

definition link_calls :: "particle \<Rightarrow> real \<Rightarrow> real \<Rightarrow> particle \<Rightarrow> call list" where
  "link_calls p h intensity other =
     (let dx = p_x other - p_x p;
          dy = p_y other - p_y p;
          distance = sqrt (dx * dx + dy * dy)
      in if distance < 100 * intensity
         then [SetStrokeStyle (Colour (Hsla h 100 50 (intensity * 0.3))), SetLineWidth 1,
               BeginPath, MoveTo (p_x p) (p_y p), LineTo (p_x other) (p_y other), Stroke]
         else [])"

text \<open>
  The callback of \<open>forEach\<close> for the particle at \<open>index\<close> of the array \<open>ps\<close>: the array
  after it, the calls it made and the exception it ended with. The particle is moved
  first. A bin read past the end of \<open>dataArray\<close> makes \<open>intensity\<close> and \<open>size\<close> NaN, and
  \<open>createRadialGradient\<close> throws a TypeError on it; on a negative \<open>size\<close> (here \<open>sz\<close>) it throws an
  IndexSizeError. The particles after \<open>index\<close> are read as they are in \<open>ps\<close>: not yet moved
  in this tick.
\<close>

definition particle_step ::
  "real \<Rightarrow> real \<Rightarrow> nat \<Rightarrow> byte list \<Rightarrow> real \<Rightarrow> (nat \<Rightarrow> real) \<Rightarrow> particle list \<Rightarrow> nat
   \<Rightarrow> particle list \<times> call list \<times> error option" where
  "particle_step width height n d scale now ps index =
     (let dataIndex = nat \<lfloor>(real index / real (length ps)) * real n\<rfloor>;
          p = move_particle width height scale (ps ! index);
          ps' = ps[index := p]
      in case bin_at d dataIndex of
           None \<Rightarrow> (ps', [], Some TypeError)
         | Some b \<Rightarrow>
             (let intensity = b / 255;
                  sz = radius p * (1 + intensity * 2);
                  h = js_rem (hue p + now index / 50) 360
              in if sz < 0 then (ps', [], Some IndexSizeError)
                 else (ps',
                       disc_calls p sz h intensity
                       @ concat (map (\<lambda>j. link_calls p h intensity (ps' ! j))
                                   [Suc index..<length ps']),
                       None)))"

text \<open>
  \<open>this.particles.forEach\<close>, from \<open>index\<close> on; \<open>m\<close> is the length of the array when
  \<open>forEach\<close> was called, which bounds the indices it visits.
\<close>

function particles_loop ::
  "real \<Rightarrow> real \<Rightarrow> nat \<Rightarrow> byte list \<Rightarrow> real \<Rightarrow> (nat \<Rightarrow> real) \<Rightarrow> nat \<Rightarrow> particle list \<Rightarrow> nat
   \<Rightarrow> particle list \<times> call list \<times> error option" where
  "particles_loop width height n d scale now m ps index =
     (if index < m then
        (case particle_step width height n d scale now ps index of
           (ps', ks, Some e) \<Rightarrow> (ps', ks, Some e)
         | (ps', ks, None) \<Rightarrow>
             (case particles_loop width height n d scale now m ps' (Suc index) of
                (ps'', ks', e) \<Rightarrow> (ps'', ks @ ks', e)))
      else (ps, [], None))"
  by pat_completeness auto
termination
  by (relation "measure (\<lambda>(width, height, n, d, scale, now, m, ps, index). m - index)") auto

declare particles_loop.simps [simp del]

text \<open>
  \<open>drawParticles\<close>. \<open>reduce\<close> without an initial value throws a TypeError on an empty
  array. With a non-empty array and \<open>bufferLength\<close> zero the source divides by zero and
  goes on with \<open>scale\<close> Infinity or NaN: the model stops there with \<open>NonFinite\<close>.
\<close>

definition drawParticles ::
  "engine \<Rightarrow> analysis \<Rightarrow> (nat \<Rightarrow> real) \<Rightarrow> particle list \<times> call list \<times> error option" where
  "drawParticles s a now =
     (let width = logical_width s;
          height = logical_height s;
          background = [SetFillStyle (Colour (Rgba 0 0 0 0.1)), FillRect 0 0 width height]
      in if dataArray a = [] then (particles s, background, Some TypeError)
         else if bufferLength a = 0 then (particles s, background, Some NonFinite)
         else
           (let average = real (sum_list (map unat (dataArray a))) / real (bufferLength a);
                scale = average / 128
            in case particles_loop width height (bufferLength a) (dataArray a) scale now
                      (length (particles s)) (particles s) 0 of
                 (ps, ks, e) \<Rightarrow> (ps, background @ ks, e)))"

subsection \<open>The engine's operations\<close>



text \<open>
  \<open>getByteFrequencyData\<close> copies the analyser's current data into the array it is given,
  whose length stays: data beyond it is dropped, elements beyond the data stay.
\<close>

definition getByteFrequencyData :: "byte list \<Rightarrow> byte list \<Rightarrow> byte list" where
  "getByteFrequencyData sample buf = take (length buf) sample @ drop (length sample) buf"

definition changeMode :: "string \<Rightarrow> engine \<Rightarrow> engine" where
  "changeMode v s = s\<lparr>mode := v\<rparr>"

definition clearCanvas :: "engine \<Rightarrow> engine" where
  "clearCanvas s =
     (let width = logical_width s;
          height = logical_height s
      in s\<lparr>ctx := exec (logical_width s) (logical_height s) (ClearRect 0 0 width height)
                     (ctx s)\<rparr>)"

text \<open>
  \<open>if (this.animationId)\<close>: \<open>null\<close> and 0 are falsy. \<open>cancelAnimationFrame\<close> takes the
  handle off the pending requests; on a handle that is not pending it does nothing.
\<close>

definition stop :: "engine \<Rightarrow> engine" where
  "stop s =
     (let s1 = s\<lparr>audio_paused := True, audio_currentTime := 0, isPlaying := False\<rparr>;
          s2 = (case animationId s1 of
                  None \<Rightarrow> s1
                | Some h \<Rightarrow>
                    if h \<noteq> 0 then s1\<lparr>pending_frames := removeAll h (pending_frames s1)\<rparr>
                    else s1)
      in clearCanvas s2)"

definition pause :: "engine \<Rightarrow> engine" where
  "pause s = s\<lparr>audio_paused := True, isPlaying := False\<rparr>"

text \<open>
  \<open>visualize\<close>, with the analyser's current data \<open>sample\<close> and the clock \<open>now\<close>: the engine
  after it and the exception it ended with. The next frame is requested before anything
  is drawn. The calls a draw routine made before an exception stay made, and so do the
  moves of the particles. A \<open>mode\<close> that is none of the four cases draws nothing.
\<close>

definition paint_calls :: "engine \<Rightarrow> call list \<Rightarrow> engine" where
  "paint_calls s ks = s\<lparr>ctx := exec_all (logical_width s) (logical_height s) ks (ctx s)\<rparr>"

definition visualize :: "byte list \<Rightarrow> (nat \<Rightarrow> real) \<Rightarrow> engine \<Rightarrow> engine \<times> error option" where
  "visualize sample now s =
     (if \<not> isPlaying s then (s, None)
      else
        (let h = Suc (frame_counter s);
             s1 = s\<lparr>animationId := Some h, frame_counter := h,
                    pending_frames := pending_frames s @ [h]\<rparr>
         in case analysis s1 of
              None \<Rightarrow> (s1, Some TypeError)
            | Some a0 \<Rightarrow>
                (let a = a0\<lparr>dataArray := getByteFrequencyData sample (dataArray a0)\<rparr>;
                     s2 = s1\<lparr>analysis := Some a\<rparr>
                 in if mode s2 = ''bars'' then
                      (case drawBars s2 a of (ks, e) \<Rightarrow> (paint_calls s2 ks, e))
                    else if mode s2 = ''circle'' then
                      (case drawCircle s2 a of (ks, e) \<Rightarrow> (paint_calls s2 ks, e))
                    else if mode s2 = ''wave'' then
                      (case drawWave s2 a now of (ks, e) \<Rightarrow> (paint_calls s2 ks, e))
                    else if mode s2 = ''particles'' then
                      (case drawParticles s2 a now of
                         (ps, ks, e) \<Rightarrow> (paint_calls (s2\<lparr>particles := ps\<rparr>) ks, e))
                    else (s2, None))))"

definition play :: "byte list \<Rightarrow> (nat \<Rightarrow> real) \<Rightarrow> engine \<Rightarrow> engine \<times> error option" where
  "play sample now s = visualize sample now (s\<lparr>audio_paused := False, isPlaying := True\<rparr>)"


subsection \<open>The engine as the constructor leaves it, and an example canvas\<close>

definition blank_context :: context2d where
  "blank_context = \<lparr>fillStyle = Colour (Rgba 0 0 0 1), strokeStyle = Colour (Rgba 0 0 0 1),
                     lineWidth = 1, path = [], surface = []\<rparr>"

text \<open>The fields as the constructor sets them, on a canvas of 100 by 100 at pixel ratio 1.\<close>

definition new_engine :: engine where
  "new_engine = \<lparr>isPlaying = False, animationId = None, mode = ''bars'', particles = [],
                  analysis = None, canvas_width = 100, canvas_height = 100,
                  ctx = blank_context, devicePixelRatio = 1, frame_counter = 0,
                  pending_frames = [], audio_paused = True, audio_currentTime = 0\<rparr>"



text \<open>
  An engine with one bin and one particle, on the right border and moving right.
\<close>

definition border_particle :: particle where
  "border_particle = \<lparr>p_x = 100, p_y = 50, radius = 1, speedX = 1, speedY = 0, hue = 0\<rparr>"

definition border_engine :: engine where
  "border_engine = new_engine\<lparr>particles := [border_particle]\<rparr>"

definition one_bin :: "byte \<Rightarrow> analysis" where
  "one_bin b = \<lparr>bufferLength = 1, dataArray = [b]\<rparr>"

subsection \<open>Reading the calls\<close>

text \<open>The rectangles filled, the end points of the lines drawn, and the surface bounds.\<close>

fun rects :: "call list \<Rightarrow> (real \<times> real \<times> real \<times> real) list" where
  "rects [] = []"
| "rects (FillRect rx ry rw rh # ks) = (rx, ry, rw, rh) # rects ks"
| "rects (k # ks) = rects ks"

fun endpoints :: "call list \<Rightarrow> (real \<times> real) list" where
  "endpoints [] = []"
| "endpoints (MoveTo px py # ks) = (px, py) # endpoints ks"
| "endpoints (LineTo px py # ks) = (px, py) # endpoints ks"
| "endpoints (k # ks) = endpoints ks"


text \<open>
  The point \<open>(x1, y1)\<close> of bin \<open>i\<close> on the base circle, as \<open>drawCircle\<close> computes it.
\<close>

definition base_point :: "engine \<Rightarrow> analysis \<Rightarrow> nat \<Rightarrow> real \<times> real" where
  "base_point s a i =
     (let angle = (real i / real (bufferLength a)) * pi * 2;
          r = min (logical_width s) (logical_height s) / 4
      in (logical_width s / 2 + cos angle * r, logical_height s / 2 + sin angle * r))"

text \<open>The width and the height of the bar of bin \<open>i\<close>, as \<open>drawBars\<close> computes them.\<close>

definition bar_width :: "engine \<Rightarrow> analysis \<Rightarrow> real" where
  "bar_width s a = (logical_width s / real (bufferLength a)) * 2.5"

definition bar_height :: "engine \<Rightarrow> analysis \<Rightarrow> nat \<Rightarrow> real" where
  "bar_height s a i = (real (unat (dataArray a ! i)) / 255) * logical_height s * 0.8"

section \<open>Properties\<close>

subsection \<open>Mode selection\<close>


text \<open>
  C8: changing the mode touches the mode selector only. The particle field after the
  switch is the particle field before it, particle by particle and field by field, and so
  is every other part of the engine.
\<close>

theorem changeMode_keeps_particles:
  "particles (changeMode v s) = particles s \<and>
   map p_x (particles (changeMode v s)) = map p_x (particles s) \<and>
   map p_y (particles (changeMode v s)) = map p_y (particles s) \<and>
   changeMode v s = s\<lparr>mode := v\<rparr>"
  by (simp add: changeMode_def)

subsection \<open>Stopping\<close>

text \<open>
  C9: \<open>stop\<close> is idempotent. It is a total function of the engine, with no exception on
  any path, whether the engine is running or not; a second \<open>stop\<close> changes nothing, and
  after one call as after two the surface is cleared and the engine is not playing.
\<close>

theorem stop_idempotent:
  "stop (stop s) = stop s \<and>
   surface (ctx (stop s)) = [] \<and>
   surface (ctx (stop (stop s))) = [] \<and>
   \<not> isPlaying (stop (stop s))"
  by (simp add: stop_def clearCanvas_def logical_width_def logical_height_def covers_def
        Let_def split: option.splits)

subsection \<open>Bars\<close>

lemma bars_loop_valid:
  "n \<le> length d \<Longrightarrow>
   bars_loop height barWidth n d bx i =
     (concat (map (\<lambda>j. bar_calls height barWidth n (bx + real (j - i) * (barWidth + 1)) j
                           (real (unat (d ! j)))) [i..<n]), None)"
proof (induction height barWidth n d bx i rule: bars_loop.induct)
  case (1 height barWidth n d bx i)
  show ?case
  proof (cases "i < n")
    case False
    then show ?thesis by (simp add: bars_loop.simps)
  next
    case True
    with "1.prems" have v: "bin_at d i = Some (real (unat (d ! i)))"
      by (simp add: bin_at_def)
    have ih: "bars_loop height barWidth n d (bx + (barWidth + 1)) (Suc i) =
       (concat (map (\<lambda>j. bar_calls height barWidth n
                  (bx + (barWidth + 1) + real (j - Suc i) * (barWidth + 1)) j
                  (real (unat (d ! j)))) [Suc i..<n]), None)"
      using "1.IH" [OF True v] "1.prems" by simp
    have shift: "\<And>j. j \<in> set [Suc i..<n] \<Longrightarrow>
        bx + (barWidth + 1) + real (j - Suc i) * (barWidth + 1) = bx + real (j - i) * (barWidth + 1)"
    proof -
      fix j assume "j \<in> set [Suc i..<n]"
      then have "real (j - i) = real (j - Suc i) + 1" by auto
      then show "bx + (barWidth + 1) + real (j - Suc i) * (barWidth + 1) = bx + real (j - i) * (barWidth + 1)"
        by (simp add: algebra_simps)
    qed
    have meq: "map (\<lambda>j. bar_calls height barWidth n
                  (bx + (barWidth + 1) + real (j - Suc i) * (barWidth + 1)) j
                  (real (unat (d ! j)))) [Suc i..<n] =
          map (\<lambda>j. bar_calls height barWidth n
                  (bx + real (j - i) * (barWidth + 1)) j
                  (real (unat (d ! j)))) [Suc i..<n]"
      using shift by (intro map_cong refl) presburger
    have step: "bars_loop height barWidth n d bx i =
        (let (ks, e) = bars_loop height barWidth n d (bx + (barWidth + 1)) (Suc i)
         in (bar_calls height barWidth n bx i (real (unat (d ! i))) @ ks, e))"
      using True v by (subst bars_loop.simps) simp
    have upt: "[i..<n] = i # [Suc i..<n]"
      using True by (simp add: upt_conv_Cons)
    show ?thesis
      unfolding step ih meq upt by simp
  qed
qed

lemma drawBars_valid:
  assumes "length (dataArray a) = bufferLength a"
  shows "drawBars s a =
     ([SetFillStyle (Colour (Rgba 0 0 0 0.2)), FillRect 0 0 (logical_width s) (logical_height s)]
      @ concat (map (\<lambda>j. bar_calls (logical_height s) (bar_width s a) (bufferLength a)
                            (real j * (bar_width s a + 1)) j (real (unat (dataArray a ! j))))
                 [0..<bufferLength a]), None)"
  using assms by (simp add: drawBars_def bar_width_def Let_def bars_loop_valid)

lemma rects_append: "rects (ks @ ks') = rects ks @ rects ks'"
  by (induction ks rule: rects.induct) simp_all

lemma rects_concat: "rects (concat kss) = concat (map rects kss)"
  by (induction kss) (simp_all add: rects_append)

lemma rects_bar_calls:
  "rects (bar_calls height barWidth n bx i v) =
     [(bx, height - (v / 255) * height * 0.8, barWidth, (v / 255) * height * 0.8),
      (bx, height - (v / 255) * height * 0.8 - 10, barWidth, 5)]"
  unfolding bar_calls_def Let_def by simp

lemma logical_width_nonneg: "0 \<le> devicePixelRatio s \<Longrightarrow> 0 \<le> logical_width s"
  by (simp add: logical_width_def)

lemma logical_height_nonneg: "0 \<le> devicePixelRatio s \<Longrightarrow> 0 \<le> logical_height s"
  by (simp add: logical_height_def)


lemma drawBars_rects:
  assumes "length (dataArray a) = bufferLength a"
  shows "rects (fst (drawBars s a)) =
           (0, 0, logical_width s, logical_height s) #
           concat (map (\<lambda>i. [(real i * (bar_width s a + 1),
                               logical_height s - bar_height s a i,
                               bar_width s a, bar_height s a i),
                              (real i * (bar_width s a + 1),
                               logical_height s - bar_height s a i - 10,
                               bar_width s a, 5)])
                     [0..<bufferLength a])"
  by (simp add: drawBars_valid [OF assms] rects_append rects_concat rects_bar_calls
        bar_height_def comp_def)

lemma length_concat_pairs: "length (concat (map (\<lambda>i. [f i, g i]) [0..<n])) = 2 * n"
  by (induction n) simp_all

lemma nth_concat_pairs:
  "i < n \<Longrightarrow> concat (map (\<lambda>i. [f i, g i]) [0..<n]) ! (2 * i) = f i \<and>
             concat (map (\<lambda>i. [f i, g i]) [0..<n]) ! (2 * i + 1) = g i"
proof (induction n)
  case 0
  then show ?case by simp
next
  case (Suc n)
  show ?case
  proof (cases "i < n")
    case True
    then have "2 * i < 2 * n" "2 * i + 1 < 2 * n" by simp_all
    with Suc.IH [OF True] show ?thesis
      by (simp add: nth_append length_concat_pairs)
  next
    case False
    with Suc.prems have "i = n" by simp
    then show ?thesis
      by (simp add: nth_append length_concat_pairs)
  qed
qed



text \<open>
  C4, as amended: the cap strip of bin \<open>i\<close> is 5 units tall and starts 10 units above the
  top edge of its bar, at \<open>y = height - barHeight - 10\<close>, so that its bottom edge lies 5
  units above the bar's top edge \<open>height - barHeight\<close>: between the two there is a gap of 5
  units.
\<close>

theorem cap_strip_gap:
  assumes "length (dataArray a) = bufferLength a" and "i < bufferLength a"
  shows "rects (fst (drawBars s a)) ! (2 * i + 1) =
           (real i * (bar_width s a + 1), logical_height s - bar_height s a i,
            bar_width s a, bar_height s a i) \<and>
         rects (fst (drawBars s a)) ! (2 * i + 2) =
           (real i * (bar_width s a + 1), logical_height s - bar_height s a i - 10,
            bar_width s a, 5) \<and>
         (logical_height s - bar_height s a i - 10) + 5 = (logical_height s - bar_height s a i) - 5"
  using nth_concat_pairs [OF assms(2),
      of "\<lambda>i. (real i * (bar_width s a + 1), logical_height s - bar_height s a i,
                 bar_width s a, bar_height s a i)"
         "\<lambda>i. (real i * (bar_width s a + 1), logical_height s - bar_height s a i - 10,
                 bar_width s a, 5)"]
  by (simp add: drawBars_rects [OF assms(1)])

text \<open>The bar and the strip of the only bin, of value 255.\<close>

theorem cap_strip_gap_witness:
  "length (dataArray (one_bin 255)) = bufferLength (one_bin 255) \<and>
   (0::nat) < bufferLength (one_bin 255) \<and>
   rects (fst (drawBars new_engine (one_bin 255))) ! Suc 0 = (0, 20, 250, 80) \<and>
   rects (fst (drawBars new_engine (one_bin 255))) ! Suc (Suc 0) = (0, 10, 250, 5)"
  using cap_strip_gap [of "one_bin 255" 0 new_engine]
  by (simp add: one_bin_def new_engine_def logical_width_def logical_height_def
        bar_width_def bar_height_def)

text \<open>
  C4, as the specification states it: the bottom edge of the cap strip coincides with the
  top edge of the bar. With one bin of value 255 on a canvas of 100 by 100 the bar's top
  edge is at \<open>y = 20\<close>; the strip starts at \<open>y = 10\<close> and is 5 tall, so its bottom edge is at
  15.
\<close>

theorem cap_strip_not_adjacent:
  "rects (fst (drawBars new_engine (one_bin 255))) =
     [(0, 0, 100, 100), (0, 20, 250, 80), (0, 10, 250, 5)] \<and> (10::real) + 5 \<noteq> 20"
  by (simp add: drawBars_rects one_bin_def new_engine_def logical_width_def logical_height_def
        bar_width_def bar_height_def)

subsection \<open>Radial\<close>

lemma endpoints_append: "endpoints (ks @ ks') = endpoints ks @ endpoints ks'"
  by (induction ks rule: endpoints.induct) simp_all

lemma endpoints_concat: "endpoints (concat kss) = concat (map endpoints kss)"
  by (induction kss) (simp_all add: endpoints_append)

lemma endpoints_spoke_silent:
  "endpoints (spoke_calls centerX centerY r n i (Some 0)) =
     [(centerX + cos ((real i / real n) * pi * 2) * r, centerY + sin ((real i / real n) * pi * 2) * r),
      (centerX + cos ((real i / real n) * pi * 2) * r, centerY + sin ((real i / real n) * pi * 2) * r)]"
  by (simp add: spoke_calls_def Let_def)

lemma on_circle:
  assumes "0 \<le> r"
  shows "sqrt ((cx + cos t * r - cx)\<^sup>2 + (cy + sin t * r - cy)\<^sup>2) = r"
proof -
  have "(cos t * r)\<^sup>2 + (sin t * r)\<^sup>2 = r\<^sup>2 * ((sin t)\<^sup>2 + (cos t)\<^sup>2)"
    by (simp only: power_mult_distrib distrib_left mult.commute add.commute)
  also have "\<dots> = r\<^sup>2" by simp
  finally have "(cos t * r)\<^sup>2 + (sin t * r)\<^sup>2 = r\<^sup>2" .
  then show ?thesis using assms by simp
qed

lemma silent_bins:
  assumes "length d = n" and "\<forall>b\<in>set d. b = 0" and "i \<in> set [0..<n]"
  shows "bin_at d i = Some 0"
proof -
  from assms have "i < length d" by simp
  then have "d ! i \<in> set d" by simp
  with assms(2) have "d ! i = 0" by blast
  with \<open>i < length d\<close> show ?thesis by (simp add: bin_at_def)
qed

lemma drawCircle_endpoints_silent:
  assumes "length (dataArray a) = bufferLength a" and "\<forall>b\<in>set (dataArray a). b = 0"
  shows "endpoints (fst (drawCircle s a)) =
     concat (map (\<lambda>i. [base_point s a i, base_point s a i]) [0..<bufferLength a])"
proof -
  have m: "map (\<lambda>i. spoke_calls (logical_width s / 2) (logical_height s / 2)
                 (min (logical_width s) (logical_height s) / 4) (bufferLength a) i
                 (bin_at (dataArray a) i)) [0..<bufferLength a] =
           map (\<lambda>i. spoke_calls (logical_width s / 2) (logical_height s / 2)
                 (min (logical_width s) (logical_height s) / 4) (bufferLength a) i
                 (Some 0)) [0..<bufferLength a]"
    using silent_bins [OF assms] by (intro map_cong refl) presburger
  show ?thesis
    unfolding drawCircle_def Let_def m
    by (simp add: endpoints_append endpoints_concat endpoints_spoke_silent comp_def
          base_point_def Let_def)
qed

lemma base_point_on_circle:
  assumes "0 \<le> devicePixelRatio s"
  shows "sqrt ((fst (base_point s a i) - logical_width s / 2)\<^sup>2 +
               (snd (base_point s a i) - logical_height s / 2)\<^sup>2) =
         min (logical_width s) (logical_height s) / 4"
proof -
  have r: "0 \<le> min (logical_width s) (logical_height s) / 4"
    using logical_width_nonneg [OF assms] logical_height_nonneg [OF assms] by simp
  show ?thesis
    unfolding base_point_def Let_def fst_conv snd_conv by (rule on_circle [OF r])
qed

text \<open>
  C7: for a spectrum of \<open>bufferLength\<close> bins that are all 0, \<open>drawCircle\<close> ends without
  exception, and both end points of the line segment of each bin are the point of the bin
  on the base circle: \<open>barHeight\<close> is 0 and the segments shrink to points. Every end point
  lies at the distance \<open>min(width, height) / 4\<close> from the centre of the surface; over the
  real numbers the distance is exact. The pixel ratio of a display is not negative.
\<close>

theorem drawCircle_silent:
  assumes "length (dataArray a) = bufferLength a"
    and "\<forall>b\<in>set (dataArray a). b = 0"
    and "0 \<le> devicePixelRatio s"
  shows "snd (drawCircle s a) = None \<and>
         endpoints (fst (drawCircle s a)) =
           concat (map (\<lambda>i. [base_point s a i, base_point s a i]) [0..<bufferLength a]) \<and>
         length (endpoints (fst (drawCircle s a))) = 2 * bufferLength a \<and>
         (\<forall>(px, py) \<in> set (endpoints (fst (drawCircle s a))).
            sqrt ((px - logical_width s / 2)\<^sup>2 + (py - logical_height s / 2)\<^sup>2) =
            min (logical_width s) (logical_height s) / 4)"
proof -
  have r: "0 \<le> min (logical_width s) (logical_height s) / 4"
    using logical_width_nonneg [OF assms(3)] logical_height_nonneg [OF assms(3)] by simp
  have e: "snd (drawCircle s a) = None"
    using r by (simp add: drawCircle_def Let_def not_less)
  note ep = drawCircle_endpoints_silent [OF assms(1,2), of s]
  have l: "length (endpoints (fst (drawCircle s a))) = 2 * bufferLength a"
    unfolding ep by (rule length_concat_pairs)
  have d: "\<forall>(px, py) \<in> set (endpoints (fst (drawCircle s a))).
            sqrt ((px - logical_width s / 2)\<^sup>2 + (py - logical_height s / 2)\<^sup>2) =
            min (logical_width s) (logical_height s) / 4"
  proof (intro ballI)
    fix q assume "q \<in> set (endpoints (fst (drawCircle s a)))"
    then obtain i where "q = base_point s a i"
      unfolding ep by auto
    with base_point_on_circle [OF assms(3), of a i]
    show "case q of (px, py) \<Rightarrow>
            sqrt ((px - logical_width s / 2)\<^sup>2 + (py - logical_height s / 2)\<^sup>2) =
            min (logical_width s) (logical_height s) / 4"
      by (simp add: case_prod_beta)
  qed
  show ?thesis
    by (intro conjI) (rule e, rule ep, rule l, rule d)
qed

text \<open>One bin of value 0 on the canvas of 100 by 100: centre (50, 50), base radius 25.\<close>

theorem drawCircle_silent_witness:
  "length (dataArray (one_bin 0)) = bufferLength (one_bin 0) \<and>
   dataArray (one_bin 0) = [0] \<and>
   0 \<le> devicePixelRatio new_engine \<and>
   snd (drawCircle new_engine (one_bin 0)) = None \<and>
   length (endpoints (fst (drawCircle new_engine (one_bin 0)))) = 2 \<and>
   sqrt ((fst (endpoints (fst (drawCircle new_engine (one_bin 0))) ! 0) - 50)\<^sup>2 +
         (snd (endpoints (fst (drawCircle new_engine (one_bin 0))) ! 0) - 50)\<^sup>2) = 25"
proof -
  have h: "length (dataArray (one_bin 0)) = bufferLength (one_bin 0)"
    "\<forall>b\<in>set (dataArray (one_bin 0)). b = 0" "0 \<le> devicePixelRatio new_engine"
    by (simp_all add: one_bin_def new_engine_def)
  note t = drawCircle_silent [OF h]
  from t have l: "length (endpoints (fst (drawCircle new_engine (one_bin 0)))) = 2"
    by (simp add: one_bin_def)
  then have "endpoints (fst (drawCircle new_engine (one_bin 0))) ! 0
      \<in> set (endpoints (fst (drawCircle new_engine (one_bin 0))))"
    by simp
  with t have "(\<lambda>(px, py).
      sqrt ((px - logical_width new_engine / 2)\<^sup>2 + (py - logical_height new_engine / 2)\<^sup>2) =
            min (logical_width new_engine) (logical_height new_engine) / 4)
      (endpoints (fst (drawCircle new_engine (one_bin 0))) ! 0)"
    by (elim conjE) (erule bspec)
  then have "case endpoints (fst (drawCircle new_engine (one_bin 0))) ! 0 of (px, py) \<Rightarrow>
      sqrt ((px - logical_width new_engine / 2)\<^sup>2 + (py - logical_height new_engine / 2)\<^sup>2) =
            min (logical_width new_engine) (logical_height new_engine) / 4"
    by simp
  then have "sqrt ((fst (endpoints (fst (drawCircle new_engine (one_bin 0))) ! 0) - 50)\<^sup>2 +
         (snd (endpoints (fst (drawCircle new_engine (one_bin 0))) ! 0) - 50)\<^sup>2) = 25"
    by (simp add: case_prod_beta logical_width_def logical_height_def new_engine_def)
  with t l h show ?thesis by (simp add: one_bin_def)
qed

subsection \<open>Particles\<close>


lemma move_particle_reflects:
  assumes "0 \<le> width" and "0 < scale" and "p_x p = width" and "speedX p = 1"
  shows "speedX (move_particle width height scale p) = - 1 \<and>
         p_x (move_particle width height scale p) = width"
  using assms by (simp add: move_particle_def Let_def)

lemma particle_step_array:
  "fst (particle_step width height n d scale now ps index) =
     ps[index := move_particle width height scale (ps ! index)]"
  by (simp add: particle_step_def Let_def split: option.splits)

lemma particles_loop_array:
  assumes "particles_loop width height n d scale now m ps index = (ps', ks, e)"
  shows "length ps' = length ps \<and>
         (\<exists>k\<ge>index. (\<forall>j<length ps. ps' ! j =
                         (if index \<le> j \<and> j < k then move_particle width height scale (ps ! j)
                          else ps ! j)) \<and>
                     (e = None \<longrightarrow> m \<le> k))"
  using assms
proof (induction width height n d scale now m ps index arbitrary: ps' ks e
       rule: particles_loop.induct)
  case (1 width height n d scale now m ps index)
  show ?case
  proof (cases "index < m")
    case False
    with "1.prems" have "ps' = ps" "e = None"
      by (simp_all add: particles_loop.simps)
    with False show ?thesis by (intro conjI exI [of _ index]) auto
  next
    case True
    obtain ps1 ks1 e1 where st: "particle_step width height n d scale now ps index = (ps1, ks1, e1)"
      by (cases "particle_step width height n d scale now ps index") auto
    have ps1: "ps1 = ps[index := move_particle width height scale (ps ! index)]"
      using particle_step_array [of width height n d scale now ps index] st by simp
    show ?thesis
    proof (cases e1)
      case (Some err)
      with "1.prems" True st have "ps' = ps1" "e = Some err"
        by (simp_all add: particles_loop.simps)
      have "\<forall>j<length ps. ps' ! j =
              (if index \<le> j \<and> j < Suc index then move_particle width height scale (ps ! j)
               else ps ! j)"
      proof (intro allI impI)
        fix j assume j: "j < length ps"
        show "ps' ! j =
              (if index \<le> j \<and> j < Suc index then move_particle width height scale (ps ! j)
               else ps ! j)"
        proof (cases "j = index")
          case True
          with j ps1 \<open>ps' = ps1\<close> show ?thesis by simp
        next
          case False
          then have "\<not> (index \<le> j \<and> j < Suc index)" by simp
          with False j ps1 \<open>ps' = ps1\<close> show ?thesis by (simp add: nth_list_update)
        qed
      qed
      with ps1 \<open>ps' = ps1\<close> \<open>e = Some err\<close> show ?thesis
        by (intro conjI exI [of _ "Suc index"]) simp_all
    next
      case None
      obtain ps2 ks2 e2 where
        rec: "particles_loop width height n d scale now m ps1 (Suc index) = (ps2, ks2, e2)"
        by (cases "particles_loop width height n d scale now m ps1 (Suc index)") auto
      with "1.prems" True st None have res: "ps' = ps2" "e = e2"
        by (simp_all add: particles_loop.simps)
      from "1.IH" [OF True st [symmetric] refl None rec]
      obtain k where k: "Suc index \<le> k" "length ps2 = length ps1"
        "\<forall>j<length ps1. ps2 ! j =
           (if Suc index \<le> j \<and> j < k then move_particle width height scale (ps1 ! j) else ps1 ! j)"
        "e2 = None \<longrightarrow> m \<le> k"
        by auto
      have "\<forall>j<length ps. ps' ! j =
              (if index \<le> j \<and> j < k then move_particle width height scale (ps ! j) else ps ! j)"
      proof (intro allI impI)
        fix j assume j: "j < length ps"
        show "ps' ! j =
              (if index \<le> j \<and> j < k then move_particle width height scale (ps ! j) else ps ! j)"
        proof (cases "j = index")
          case True
          with k j ps1 res show ?thesis by simp
        next
          case False
          with k j ps1 res show ?thesis by (auto simp: nth_list_update)
        qed
      qed
      with k res ps1 show ?thesis
        by (intro conjI exI [of _ k]) auto
    qed
  qed
qed


text \<open>What a tick of the Particles mode does to the array, whatever its outcome.\<close>

lemma drawParticles_array:
  "length (fst (drawParticles s a now)) = length (particles s) \<and>
   (\<exists>k. (\<forall>j<length (particles s). fst (drawParticles s a now) ! j =
             (if j < k
              then move_particle (logical_width s) (logical_height s)
                     (real (sum_list (map unat (dataArray a))) / real (bufferLength a) / 128)
                     (particles s ! j)
              else particles s ! j)) \<and>
        (snd (snd (drawParticles s a now)) = None \<longrightarrow> length (particles s) \<le> k))"
proof (cases "dataArray a = [] \<or> bufferLength a = 0")
  case True
  then show ?thesis
    by (intro conjI exI [of _ 0]) (auto simp: drawParticles_def Let_def)
next
  case False
  obtain ps ks e where
    l: "particles_loop (logical_width s) (logical_height s) (bufferLength a) (dataArray a)
          (real (sum_list (map unat (dataArray a))) / real (bufferLength a) / 128) now
          (length (particles s)) (particles s) 0 = (ps, ks, e)"
    using prod_cases3 by blast
  from False l have dp: "fst (drawParticles s a now) = ps" "snd (snd (drawParticles s a now)) = e"
    by (simp_all add: drawParticles_def Let_def)
  from particles_loop_array [OF l] show ?thesis
    unfolding dp by auto
qed


lemma sum_list_unat_pos:
  assumes "\<exists>b\<in>set d. b \<noteq> (0::byte)"
  shows "0 < sum_list (map unat d)"
proof -
  from assms obtain b where b: "b \<in> set d" "b \<noteq> 0" by blast
  then have "0 < unat b" by (simp add: unat_gt_0)
  moreover have "unat b \<le> sum_list (map unat d)"
    using b(1) by (simp add: member_le_sum_list)
  ultimately show ?thesis by linarith
qed

text \<open>
  C2, as amended: in a tick of the Particles mode that draws all particles, with a
  spectrum that has a bin other than 0 (so that \<open>scale\<close> is positive), a particle at
  \<open>x = width\<close> with \<open>speedX = 1\<close> has \<open>speedX = -1\<close> and \<open>x = width\<close> after the tick: it
  leaves the surface, its speed is flipped, then it is clamped back to the border. The
  pixel ratio of a display is not negative.
\<close>

theorem border_reflection:
  assumes "0 \<le> devicePixelRatio s"
    and "\<exists>b\<in>set (dataArray a). b \<noteq> 0"
    and "snd (snd (drawParticles s a now)) = None"
    and "i < length (particles s)"
    and "p_x (particles s ! i) = logical_width s"
    and "speedX (particles s ! i) = 1"
  shows "speedX (fst (drawParticles s a now) ! i) = - 1 \<and>
         p_x (fst (drawParticles s a now) ! i) = logical_width s"
proof -
  from assms(3) have n: "bufferLength a \<noteq> 0"
    by (auto simp: drawParticles_def Let_def split: if_splits)
  have "0 < real (sum_list (map unat (dataArray a)))"
    using sum_list_unat_pos [OF assms(2)] by simp
  with n have scale: "0 < real (sum_list (map unat (dataArray a))) / real (bufferLength a) / 128"
    by simp
  from drawParticles_array [of s a now] assms(3,4)
  have "fst (drawParticles s a now) ! i =
          move_particle (logical_width s) (logical_height s)
            (real (sum_list (map unat (dataArray a))) / real (bufferLength a) / 128)
            (particles s ! i)"
    by auto
  with move_particle_reflects [OF logical_width_nonneg [OF assms(1)] scale assms(5,6)]
  show ?thesis by simp
qed




lemma one_particle_tick:
  "fst (drawParticles border_engine (one_bin b) (\<lambda>k. 0)) =
     [move_particle 100 100 (real (unat b) / 128) border_particle] \<and>
   snd (snd (drawParticles border_engine (one_bin b) (\<lambda>k. 0))) = None"
proof -
  have "0 \<le> real (unat b)" by (rule of_nat_0_le_iff)
  then have "0 \<le> real (unat b) * 2 / 255" by simp
  then have sz: "\<not> 1 + real (unat b) * 2 / 255 < 0" by linarith
  have r: "radius (move_particle 100 100 (real (unat b) / 128) border_particle) = 1"
    by (simp add: move_particle_def border_particle_def Let_def)
  show ?thesis
    using r sz
    by (simp add: drawParticles_def border_engine_def new_engine_def one_bin_def
          logical_width_def logical_height_def Let_def
          particles_loop.simps [of _ _ _ _ _ _ _ _ 0]
          particles_loop.simps [of _ _ _ _ _ _ _ _ "Suc 0"]
          particle_step_def bin_at_def)
qed

text \<open>The particle on the right border, with one bin of value 255.\<close>

theorem border_reflection_witness:
  "0 \<le> devicePixelRatio border_engine \<and>
   (\<exists>b\<in>set (dataArray (one_bin 255)). b \<noteq> 0) \<and>
   snd (snd (drawParticles border_engine (one_bin 255) (\<lambda>k. 0))) = None \<and>
   (0::nat) < length (particles border_engine) \<and>
   p_x (particles border_engine ! 0) = logical_width border_engine \<and>
   speedX (particles border_engine ! 0) = 1 \<and>
   speedX (fst (drawParticles border_engine (one_bin 255) (\<lambda>k. 0)) ! 0) = - 1 \<and>
   p_x (fst (drawParticles border_engine (one_bin 255) (\<lambda>k. 0)) ! 0) = 100"
  using border_reflection [of border_engine "one_bin 255" "\<lambda>k. 0" 0]
    one_particle_tick [of 255]
  by (simp add: border_engine_def new_engine_def one_bin_def border_particle_def
        logical_width_def)

text \<open>
  C2, as the specification states it, for every spectrum: with the only bin at 0,
  \<open>scale\<close> is 0, the particle on the right border does not move, \<open>x > width\<close> is false and
  \<open>speedX\<close> stays \<open>1\<close>.
\<close>

theorem silent_border_keeps_speed:
  "p_x (particles border_engine ! 0) = logical_width border_engine \<and>
   speedX (particles border_engine ! 0) = 1 \<and>
   snd (snd (drawParticles border_engine (one_bin 0) (\<lambda>k. 0))) = None \<and>
   speedX (fst (drawParticles border_engine (one_bin 0) (\<lambda>k. 0)) ! 0) = 1 \<and>
   speedX (fst (drawParticles border_engine (one_bin 0) (\<lambda>k. 0)) ! 0) \<noteq> - 1"
  using one_particle_tick [of 0]
  by (simp add: border_engine_def new_engine_def border_particle_def logical_width_def
        move_particle_def Let_def)


lemma concat_map_Nil: "concat (map (\<lambda>j. []) js) = []"
  by (induction js) simp_all

lemma link_calls_silent: "link_calls p h 0 other = []"
  by (simp add: link_calls_def Let_def not_less)

text \<open>
  C10: when the bin a particle of the array is mapped to is 0, the turn of \<open>forEach\<close> for
  that particle
  makes no \<open>moveTo\<close> and no \<open>lineTo\<close> call, the calls that only the links make: with
  intensity 0 the test \<open>distance < 100 * intensity\<close> fails for every other particle, a
  distance being no less than 0.
\<close>

theorem silent_particle_links_nothing:
  assumes "index < length ps"
    and "nat \<lfloor>(real index / real (length ps)) * real n\<rfloor> < length d"
    and "d ! nat \<lfloor>(real index / real (length ps)) * real n\<rfloor> = 0"
  shows "endpoints (fst (snd (particle_step width height n d scale now ps index))) = [] \<and>
         (\<forall>h other. link_calls (move_particle width height scale (ps ! index)) h 0 other = [])"
proof -
  from assms(2,3) have b: "bin_at d (nat \<lfloor>(real index / real (length ps)) * real n\<rfloor>) = Some 0"
    by (simp add: bin_at_def)
  show ?thesis
    unfolding particle_step_def Let_def b
    by (simp add: link_calls_silent disc_calls_def concat_map_Nil)
qed

text \<open>Two particles at the same place, the first mapped to a bin of value 0.\<close>

theorem silent_particle_links_nothing_witness:
  "(0::nat) < length [border_particle, border_particle] \<and>
   nat \<lfloor>(real 0 / real (length [border_particle, border_particle])) * real 1\<rfloor> < length [0::byte] \<and>
   [0::byte] ! nat \<lfloor>(real 0 / real (length [border_particle, border_particle])) * real 1\<rfloor> = 0 \<and>
   endpoints (fst (snd (particle_step 100 100 1 [0] 0 (\<lambda>k. 0)
                          [border_particle, border_particle] 0))) = []"
  using silent_particle_links_nothing [of 0 "[border_particle, border_particle]" 1 "[0]" 100 100 0 "\<lambda>k. 0"]
  by simp

subsection \<open>The animation loop\<close>








end
